theory Spec2Isabelle
  imports Complex_Main "HOL-Library.Stream" "HOL-Library.Multiset"
begin

section \<open>Data model (convex/schema.ts)\<close>

text \<open>
  Document ids are strings. Numbers of the schema (\<open>v.number()\<close>) that the code uses as
  counters, indices and timestamps are integers; the countdown, which divides by 1000,
  is a real. Optional fields are \<open>option\<close>s: a patch that sets a field to
  \<open>undefined\<close> removes it, which is \<open>None\<close>.
\<close>

type_synonym ident = string

datatype theme = Light | Dark

record settings =
  theme :: theme
  language :: string
  trollMode :: bool
  timerEnabled :: bool
  timerDuration :: int
  numberOfImposters :: int
  wordsPerRound :: int

datatype status = Lobby | Playing | Discussion | Results | Ended

record game =
  status :: status
  currentPlayerIndex :: int
  currentRound :: int
  totalRounds :: int
  selectedCategories :: "string list"
  currentWord :: "string option"
  hintWord :: "string option"
  imposters :: "int list"
  settings :: settings
  timerStartTime :: "int option"
  votes :: "(ident \<times> int) list option"
  gameCode :: string

text \<open>A row of the players table; \<open>player_id\<close> is the document's \<open>_id\<close>.\<close>

record player =
  player_id :: ident
  gameId :: ident
  name :: string
  color :: string
  index :: int
  isActive :: bool

record category =
  name_cat :: string
  emoji :: string
  words :: "(string \<times> string) list"
  isDefault :: bool

text \<open>
  The database: the games table as a map from ids, the players and categories tables as
  lists in creation order (no row is ever deleted, and the \<open>by_game\<close> index lists the
  rows of one game in creation order).
\<close>

record db =
  games :: "ident \<rightharpoonup> game"
  players :: "player list"
  categories :: "category list"

datatype error =
    GameNotFound          \<comment> \<open>"Game not found"\<close>
  | NeedThreePlayers      \<comment> \<open>"Need at least 3 players to start"\<close>
  | NoCategorySelected    \<comment> \<open>"Select at least one category"\<close>
  | NoWordsFound          \<comment> \<open>"No words found in selected categories"\<close>
  | DocumentMissing       \<comment> \<open>\<open>ctx.db.patch\<close> on an id with no document\<close>
  | UndefinedWord         \<comment> \<open>TypeError: property read on \<open>undefined\<close>\<close>

section \<open>Database access\<close>

text \<open>
  A mutation returns its result, or the error it threw, with the database as it has
  written it so far.
\<close>

type_synonym 'a result = "(error + 'a) \<times> db"

definition patch_game :: "ident \<Rightarrow> (game \<Rightarrow> game) \<Rightarrow> db \<Rightarrow> unit result" where
  "patch_game gid f d =
     (case games d gid of
        None \<Rightarrow> (Inl DocumentMissing, d)
      | Some g \<Rightarrow> (Inr (), d\<lparr>games := (games d)(gid \<mapsto> f g)\<rparr>))"

definition get_player :: "ident \<Rightarrow> db \<Rightarrow> player option" where
  "get_player pid d = find (\<lambda>p. player_id p = pid) (players d)"

definition patch_player :: "ident \<Rightarrow> (player \<Rightarrow> player) \<Rightarrow> db \<Rightarrow> db" where
  "patch_player pid f d =
     d\<lparr>players := map (\<lambda>p. if player_id p = pid then f p else p) (players d)\<rparr>"

text \<open>\<open>query("players").withIndex("by_game", q => q.eq("gameId", gid))\<close>\<close>

definition by_game :: "ident \<Rightarrow> db \<Rightarrow> player list" where
  "by_game gid d = filter (\<lambda>p. gameId p = gid) (players d)"

text \<open>The same query followed by \<open>.filter(q => q.eq(q.field("isActive"), true))\<close>.\<close>

definition active_players :: "ident \<Rightarrow> db \<Rightarrow> player list" where
  "active_players gid d = filter isActive (by_game gid d)"

section \<open>Roster (convex/players.ts)\<close>

text \<open>The id of the inserted row comes from the database and is a parameter here.\<close>

definition addPlayer :: "ident \<Rightarrow> ident \<Rightarrow> string \<Rightarrow> string \<Rightarrow> db \<Rightarrow> ident result" where
  "addPlayer new_id gid nm col d =
     (let existingPlayers = by_game gid d;
          nextIndex = int (length existingPlayers)
      in (Inr new_id,
          d\<lparr>players := players d @
               [\<lparr>player_id = new_id, gameId = gid, name = nm, color = col,
                 index = nextIndex, isActive = True\<rparr>]\<rparr>))"

definition getPlayers :: "ident \<Rightarrow> db \<Rightarrow> player list" where
  "getPlayers gid d = active_players gid d"

text \<open>The loop over the snapshot \<open>remainingPlayers\<close>, from position \<open>i\<close> on.\<close>

fun update_indices :: "player list \<Rightarrow> nat \<Rightarrow> db \<Rightarrow> db" where
  "update_indices [] i d = d"
| "update_indices (p # ps) i d =
     update_indices ps (i + 1)
       (if index p \<noteq> int i then patch_player (player_id p) (\<lambda>q. q\<lparr>index := int i\<rparr>) d
        else d)"

definition removePlayer :: "ident \<Rightarrow> db \<Rightarrow> unit result" where
  "removePlayer pid d =
     (case get_player pid d of
        None \<Rightarrow> (Inr (), d)
      | Some p \<Rightarrow>
          (let d1 = patch_player pid (\<lambda>q. q\<lparr>isActive := False\<rparr>) d;
               remainingPlayers = active_players (gameId p) d1
           in (Inr (), update_indices remainingPlayers 0 d1)))"

section \<open>Game lifecycle (convex/games.ts)\<close>

definition createGame :: "ident \<Rightarrow> string \<Rightarrow> settings \<Rightarrow> db \<Rightarrow> ident result" where
  "createGame new_id code s d =
     (Inr new_id,
      d\<lparr>games := (games d)(new_id \<mapsto>
          \<lparr>status = Lobby, currentPlayerIndex = 0, currentRound = 1,
           totalRounds = wordsPerRound s, selectedCategories = [],
           currentWord = None, hintWord = None, imposters = [], settings = s,
           timerStartTime = None, votes = None, gameCode = code\<rparr>)\<rparr>)"

definition updateSelectedCategories :: "ident \<Rightarrow> string list \<Rightarrow> db \<Rightarrow> unit result" where
  "updateSelectedCategories gid cats d = patch_game gid (\<lambda>g. g\<lparr>selectedCategories := cats\<rparr>) d"

text \<open>
  \<open>Math.random()\<close> is a stream of reals, one element per call;
  \<open>Math.floor(Math.random() * n)\<close> is \<open>random_index\<close> of the head.
\<close>

definition random_index :: "real \<Rightarrow> nat \<Rightarrow> int" where
  "random_index u n = \<lfloor>u * real n\<rfloor>"

text \<open>
  The \<open>while\<close> loop of \<open>startGame\<close>. It returns the indices and the rest of the random
  stream; \<open>k\<close> is the source's local \<open>numberOfImposters\<close>, and \<open>None\<close> is a loop that
  does not end.
\<close>

partial_function (option) assign_imposters ::
  "real stream \<Rightarrow> nat \<Rightarrow> int \<Rightarrow> int list \<Rightarrow> (int list \<times> real stream) option" where
  "assign_imposters rnd n k imposterIndices =
     (if int (length imposterIndices) < k then
        (let randomIndex = random_index (shd rnd) n in
         if \<not> (randomIndex \<in> set imposterIndices)
         then assign_imposters (stl rnd) n k (imposterIndices @ [randomIndex])
         else assign_imposters (stl rnd) n k imposterIndices)
      else Some (imposterIndices, rnd))"

text \<open>The words of the categories whose name is among the selected ones (\<open>allWords\<close>).\<close>

definition all_words :: "game \<Rightarrow> db \<Rightarrow> (string \<times> string) list" where
  "all_words g d =
     (let cats = filter (\<lambda>c. name_cat c \<in> set (selectedCategories g)) (categories d)
      in concat (map words cats))"

definition startGame :: "real stream \<Rightarrow> int \<Rightarrow> ident \<Rightarrow> db \<Rightarrow> unit result option" where
  "startGame rnd now gid d =
     (case games d gid of
        None \<Rightarrow> Some (Inl GameNotFound, d)
      | Some g \<Rightarrow>
          (let ps = active_players gid d in
           if length ps < 3 then Some (Inl NeedThreePlayers, d)
           else if length (selectedCategories g) = 0 then Some (Inl NoCategorySelected, d)
           else
             (let allWords = all_words g d
              in if length allWords = 0 then Some (Inl NoWordsFound, d)
                 else
                   (let w = random_index (shd rnd) (length allWords) in
                    if w < 0 \<or> int (length allWords) \<le> w then Some (Inl UndefinedWord, d)
                    else
                      (let randomWord = allWords ! nat w;
                           k = min (numberOfImposters (settings g)) (int (length ps) - 1)
                       in case assign_imposters (stl rnd) (length ps) k [] of
                            None \<Rightarrow> None
                          | Some (imposterIndices, rnd') \<Rightarrow>
                              Some (patch_game gid
                                (\<lambda>g'. g'\<lparr>status := Playing,
                                         currentPlayerIndex := 0,
                                         currentWord := Some (fst randomWord),
                                         hintWord := Some (snd randomWord),
                                         imposters := imposterIndices,
                                         timerStartTime :=
                                           (if timerEnabled (settings g) then Some now
                                            else None)\<rparr>) d))))))"

definition nextPlayer :: "int \<Rightarrow> ident \<Rightarrow> db \<Rightarrow> unit result" where
  "nextPlayer now gid d =
     (case games d gid of
        None \<Rightarrow> (Inl GameNotFound, d)
      | Some g \<Rightarrow>
          (let ps = active_players gid d;
               nextIndex = currentPlayerIndex g + 1
           in if nextIndex \<ge> int (length ps)
              then patch_game gid
                     (\<lambda>g'. g'\<lparr>status := Discussion,
                              timerStartTime :=
                                (if timerEnabled (settings g) then Some now else None)\<rparr>) d
              else patch_game gid (\<lambda>g'. g'\<lparr>currentPlayerIndex := nextIndex\<rparr>) d))"

definition submitVotes :: "ident \<Rightarrow> (ident \<times> int) list \<Rightarrow> db \<Rightarrow> unit result" where
  "submitVotes gid vs d = patch_game gid (\<lambda>g. g\<lparr>status := Results, votes := Some vs\<rparr>) d"

definition endGame :: "ident \<Rightarrow> db \<Rightarrow> unit result" where
  "endGame gid d = patch_game gid (\<lambda>g. g\<lparr>status := Ended\<rparr>) d"

definition resetToLobby :: "ident \<Rightarrow> db \<Rightarrow> unit result" where
  "resetToLobby gid d =
     patch_game gid
       (\<lambda>g. g\<lparr>status := Lobby, currentPlayerIndex := 0, currentRound := 1,
               currentWord := None, hintWord := None, imposters := [],
               timerStartTime := None, votes := None\<rparr>) d"

section \<open>Results screen (app/results/[id].tsx)\<close>

text \<open>
  A \<open>Record<string, number>\<close> is an association list in insertion order;
  \<open>selectedVotes[id] !== undefined\<close> is a successful \<open>map_of\<close> lookup and
  \<open>Object.values\<close> is \<open>map snd\<close>. The hooks \<open>useQuery\<close> give \<open>None\<close> while loading.
\<close>

datatype submit_outcome = NotLoaded | NotAllVoted | Submitted | SubmitFailed

definition handleSubmitVotes ::
  "player list option \<Rightarrow> (ident \<times> int) list \<Rightarrow> ident \<Rightarrow> db \<Rightarrow> submit_outcome \<times> db" where
  "handleSubmitVotes players_q selectedVotes gid d =
     (case players_q of
        None \<Rightarrow> (NotLoaded, d)
      | Some ps \<Rightarrow>
          (let allPlayersVoted = list_all (\<lambda>p. map_of selectedVotes (player_id p) \<noteq> None) ps
           in if \<not> allPlayersVoted then (NotAllVoted, d)
              else (case submitVotes gid selectedVotes d of
                      (Inl e, d') \<Rightarrow> (SubmitFailed, d')
                    | (Inr u, d') \<Rightarrow> (Submitted, d'))))"

record vote_result =
  player_r :: player
  votes_r :: nat
  isImposter_r :: bool

text \<open>\<open>x || 0\<close> on a count that may be missing.\<close>

definition or_zero :: "nat option \<Rightarrow> nat" where
  "or_zero x = (case x of None \<Rightarrow> 0 | Some c \<Rightarrow> c)"


text \<open>
  \<open>Array.prototype.sort\<close> is stable; with the comparator \<open>b.votes - a.votes\<close> it is the
  stable sort by descending vote count.
\<close>

definition sort_by_votes :: "vote_result list \<Rightarrow> vote_result list" where
  "sort_by_votes rs = sort_key (\<lambda>r. - int (votes_r r)) rs"




section \<open>Game screen timer (app/game/[id].tsx)\<close>

text \<open>
  The body of the interval callback: \<open>timerStartTime\<close> and \<open>Date.now()\<close> are in
  milliseconds, \<open>timerDuration\<close> and the result in seconds.
\<close>

definition timer_remaining :: "int \<Rightarrow> int \<Rightarrow> int \<Rightarrow> real" where
  "timer_remaining duration start now =
     (let elapsed = real_of_int (now - start) / 1000
      in max 0 (real_of_int duration - elapsed))"

text \<open>
  One run of the callback on the client's copy \<open>g\<close> of the game: the new
  \<open>timeRemaining\<close> and the database after the \<open>nextPlayer\<close> call, if it is made
  (\<open>server_now\<close> is the clock that mutation reads).
\<close>

definition timer_tick :: "game \<Rightarrow> int \<Rightarrow> int \<Rightarrow> int \<Rightarrow> ident \<Rightarrow> db \<Rightarrow> real \<times> db" where
  "timer_tick g start now server_now gid d =
     (let remaining = timer_remaining (timerDuration (settings g)) start now
      in (remaining,
          if remaining = 0 \<and> status g = Playing then snd (nextPlayer server_now gid d)
          else d))"

section \<open>Reference definitions for the statements\<close>



text \<open>Successive \<open>nextPlayer\<close> calls, one per clock reading in \<open>nows\<close>.\<close>

definition nextPlayer_calls :: "int list \<Rightarrow> ident \<Rightarrow> db \<Rightarrow> db" where
  "nextPlayer_calls nows gid d = fold (\<lambda>now d'. snd (nextPlayer now gid d')) nows d"

definition set_game :: "ident \<Rightarrow> game \<Rightarrow> db \<Rightarrow> db" where
  "set_game gid g d = d\<lparr>games := (games d)(gid \<mapsto> g)\<rparr>"

text \<open>The \<open>index\<close> fields of a game's active players, in roster order.\<close>

definition roster_indices :: "ident \<Rightarrow> db \<Rightarrow> int list" where
  "roster_indices gid d = map index (getPlayers gid d)"

text \<open>
  What the patches of \<open>update_indices\<close> on the snapshot \<open>snap\<close>, counting from \<open>i\<close>, make
  of a row \<open>q\<close>.
\<close>

fun patched :: "player list \<Rightarrow> nat \<Rightarrow> player \<Rightarrow> player" where
  "patched [] i q = q"
| "patched (p # ps) i q =
     patched ps (i + 1) (if player_id q = player_id p then q\<lparr>index := int i\<rparr> else q)"

text \<open>Draws in [0, 1) whose first \<open>n\<close> indices, out of \<open>n\<close>, are 0, 1, ..., \<open>n - 1\<close>.\<close>

definition spread_draws :: "nat \<Rightarrow> real stream" where
  "spread_draws n = smap (\<lambda>i. real (i mod n) / real n) (fromN 0)"

section \<open>Example data\<close>

definition example_settings :: settings where
  "example_settings =
     \<lparr>theme = Dark, language = ''nl'', trollMode = False, timerEnabled = True,
      timerDuration = 300, numberOfImposters = 2, wordsPerRound = 1\<rparr>"

definition example_player :: "ident \<Rightarrow> string \<Rightarrow> int \<Rightarrow> player" where
  "example_player pid nm i =
     \<lparr>player_id = pid, gameId = ''g1'', name = nm, color = ''red'', index = i, isActive = True\<rparr>"

definition example_game :: game where
  "example_game =
     \<lparr>status = Results, currentPlayerIndex = 2, currentRound = 1, totalRounds = 1,
      selectedCategories = [''animals''], currentWord = Some ''cat'', hintWord = Some ''pet'',
      imposters = [2], settings = example_settings, timerStartTime = Some 1000,
      votes = Some [(''p0'', 2), (''p1'', 2), (''p2'', 0)], gameCode = ''ABCD''\<rparr>"

definition example_categories :: "category list" where
  "example_categories =
     [\<lparr>name_cat = ''animals'', emoji = ''A'', words = [(''cat'', ''pet''), (''cow'', ''farm'')],
       isDefault = True\<rparr>,
      \<lparr>name_cat = ''food'', emoji = ''F'', words = [(''soup'', ''warm'')], isDefault = True\<rparr>]"

text \<open>A finished game of three players.\<close>

definition example_db :: db where
  "example_db =
     \<lparr>games = [''g1'' \<mapsto> example_game],
      players = [example_player ''p0'' ''Ann'' 0, example_player ''p1'' ''Bo'' 1,
                 example_player ''p2'' ''Cy'' 2],
      categories = example_categories\<rparr>"

text \<open>The same three players in the lobby, one category selected, two imposters wanted.\<close>

definition lobby_game :: game where
  "lobby_game =
     example_game\<lparr>status := Lobby, currentPlayerIndex := 0, currentWord := None,
       hintWord := None, imposters := [], timerStartTime := None, votes := None\<rparr>"

definition lobby_db :: db where
  "lobby_db = example_db\<lparr>games := [''g1'' \<mapsto> lobby_game]\<rparr>"

text \<open>A lobby with two players and no category selected.\<close>

definition unready_game :: game where
  "unready_game = lobby_game\<lparr>selectedCategories := []\<rparr>"

definition unready_db :: db where
  "unready_db =
     \<lparr>games = [''g1'' \<mapsto> unready_game],
      players = [example_player ''p0'' ''Ann'' 0, example_player ''p1'' ''Bo'' 1],
      categories = example_categories\<rparr>"

text \<open>The three players at the start of the card phase, and in discussion.\<close>

definition playing_game :: game where
  "playing_game = example_game\<lparr>status := Playing, currentPlayerIndex := 0, votes := None\<rparr>"

definition playing_db :: db where
  "playing_db = example_db\<lparr>games := [''g1'' \<mapsto> playing_game]\<rparr>"

definition discussion_game :: game where
  "discussion_game = example_game\<lparr>status := Discussion, votes := None\<rparr>"

definition discussion_db :: db where
  "discussion_db = example_db\<lparr>games := [''g1'' \<mapsto> discussion_game]\<rparr>"




text \<open>Draws of \<open>Math.random()\<close>: one for the word, then three for the imposters.\<close>

definition example_draws :: "real stream" where
  "example_draws = (1/2) ## 0 ## 0 ## (1/2) ## sconst 0"

text \<open>Two players join, the first is removed, a third joins.\<close>

definition empty_db :: db where
  "empty_db = \<lparr>games = Map.empty, players = [], categories = []\<rparr>"

definition db_two_added :: db where
  "db_two_added =
     snd (addPlayer ''p1'' ''g1'' ''Bo'' ''blue''
       (snd (addPlayer ''p0'' ''g1'' ''Ann'' ''red'' empty_db)))"

definition db_one_removed :: db where
  "db_one_removed = snd (removePlayer ''p0'' db_two_added)"

definition db_third_added :: db where
  "db_third_added = snd (addPlayer ''p2'' ''g1'' ''Cy'' ''green'' db_one_removed)"

section \<open>Facts about the example data\<close>

lemma games_lobby_db: "games lobby_db ''g1'' = Some lobby_game"
  by (simp add: lobby_db_def)

lemma games_unready_db: "games unready_db ''g1'' = Some unready_game"
  by (simp add: unready_db_def)

lemma active_lobby_db: "active_players ''g1'' lobby_db = players example_db"
  by (simp add: active_players_def by_game_def lobby_db_def example_db_def example_player_def)

lemma active_playing_db: "active_players ''g1'' playing_db = players example_db"
  by (simp add: active_players_def by_game_def playing_db_def example_db_def example_player_def)

lemma active_discussion_db: "active_players ''g1'' discussion_db = players example_db"
  by (simp add: active_players_def by_game_def discussion_db_def example_db_def
        example_player_def)

lemma active_unready_db: "length (active_players ''g1'' unready_db) = 2"
  by (simp add: active_players_def by_game_def unready_db_def example_player_def)

lemma length_players_example: "length (players example_db) = 3"
  by (simp add: example_db_def)

lemma player_ids_example: "map player_id (players example_db) = [''p0'', ''p1'', ''p2'']"
  by (simp add: example_db_def example_player_def)

lemma all_words_lobby: "all_words lobby_game lobby_db = [(''cat'', ''pet''), (''cow'', ''farm'')]"
  by (simp add: all_words_def lobby_game_def lobby_db_def example_game_def example_db_def
        example_categories_def)

lemma example_draws_unit: "\<forall>u\<in>sset example_draws. 0 \<le> u \<and> u < 1"
  by (simp add: example_draws_def)

section \<open>Roster indices\<close>

text \<open>
  With unique row ids, \<open>removePlayer\<close> leaves the active players of the game numbered
  0, 1, ... in roster order; \<open>addPlayer\<close> gives the new player the number of all rows of
  the game, active or not.
\<close>

lemma patched_fields [simp]:
  "player_id (patched snap i q) = player_id q"
  "gameId (patched snap i q) = gameId q"
  "isActive (patched snap i q) = isActive q"
  by (induction snap arbitrary: i q) simp_all

lemma patched_other:
  "player_id q \<notin> player_id ` set snap \<Longrightarrow> patched snap i q = q"
  by (induction snap arbitrary: i) simp_all

lemma patched_nth:
  "distinct (map player_id snap) \<Longrightarrow> j < length snap \<Longrightarrow>
   index (patched snap i (snap ! j)) = int (i + j)"
proof (induction snap arbitrary: i j)
  case Nil
  then show ?case by simp
next
  case (Cons p ps)
  show ?case
  proof (cases j)
    case 0
    have "player_id (p\<lparr>index := int i\<rparr>) \<notin> player_id ` set ps"
      using Cons.prems(1) by simp
    then have "patched ps (i + 1) (p\<lparr>index := int i\<rparr>) = p\<lparr>index := int i\<rparr>"
      by (rule patched_other)
    with 0 show ?thesis by simp
  next
    case (Suc j')
    then have j': "j' < length ps" using Cons.prems(2) by simp
    then have "ps ! j' \<in> set ps" by simp
    then have "player_id (ps ! j') \<in> player_id ` set ps" by (rule imageI)
    moreover have "player_id p \<notin> player_id ` set ps"
      using Cons.prems(1) by simp
    ultimately have ne: "player_id (ps ! j') \<noteq> player_id p"
      by auto
    have "index (patched ps (i + 1) (ps ! j')) = int (i + 1 + j')"
      using Cons.prems(1) j' by (intro Cons.IH) simp_all
    with ne show ?thesis using Suc by simp
  qed
qed


lemma same_id_same_row:
  assumes "distinct (map player_id rows)" and "p \<in> set rows" and "q \<in> set rows"
    and "player_id q = player_id p"
  shows "q = p"
  using assms by (meson distinct_map inj_on_eq_iff)

lemma update_indices_rows:
  assumes "set snap \<subseteq> set (players d)" and "distinct (map player_id (players d))"
    and "distinct (map player_id snap)"
  shows "players (update_indices snap i d) = map (patched snap i) (players d)"
  using assms
proof (induction snap arbitrary: i d)
  case Nil
  then show ?case by simp
next
  case (Cons p ps)
  let ?d' = "if index p \<noteq> int i then patch_player (player_id p) (\<lambda>q. q\<lparr>index := int i\<rparr>) d else d"
  let ?f = "\<lambda>q. if player_id q = player_id p then q\<lparr>index := int i\<rparr> else q"
  have p_in: "p \<in> set (players d)" using Cons.prems(1) by simp
  have rows: "players ?d' = map ?f (players d)"
  proof (cases "index p \<noteq> int i")
    case True
    then show ?thesis by (simp add: patch_player_def)
  next
    case False
    have "?f q = q" if "q \<in> set (players d)" for q
    proof (cases "player_id q = player_id p")
      case True
      then have "q = p" using same_id_same_row [OF Cons.prems(2) p_in that] by simp
      with False show ?thesis by simp
    next
      case False
      then show ?thesis by simp
    qed
    then have "map ?f (players d) = players d"
      by (simp add: map_idI)
    with False show ?thesis by simp
  qed
  have ids: "map player_id (players ?d') = map player_id (players d)"
    unfolding rows by (simp add: o_def cong: map_cong)
  have sub: "set ps \<subseteq> set (players ?d')"
  proof
    fix q assume q: "q \<in> set ps"
    then have "player_id q \<in> player_id ` set ps" by (rule imageI)
    moreover have "player_id p \<notin> player_id ` set ps"
      using Cons.prems(3) by simp
    ultimately have "player_id q \<noteq> player_id p"
      by auto
    then have fq: "?f q = q" by simp
    have "q \<in> set (players d)" using q Cons.prems(1) by auto
    then have "?f q \<in> ?f ` set (players d)" by (rule imageI)
    then show "q \<in> set (players ?d')"
      unfolding rows fq by simp
  qed
  have "players (update_indices ps (i + 1) ?d') = map (patched ps (i + 1)) (players ?d')"
    using sub Cons.prems(2,3) ids by (intro Cons.IH) simp_all
  then show ?case
    unfolding rows by (simp add: o_def)
qed

lemma active_players_patched:
  assumes "players d' = map (patched snap i) (players d)"
  shows "active_players gid d' = map (patched snap i) (active_players gid d)"
  using assms by (simp add: active_players_def by_game_def filter_map o_def)

lemma removePlayer_renumbers:
  assumes "distinct (map player_id (players d))" and "get_player pid d = Some p"
  shows "roster_indices (gameId p) (snd (removePlayer pid d)) =
           map int [0..<length (getPlayers (gameId p) (snd (removePlayer pid d)))]"
proof -
  let ?d1 = "patch_player pid (\<lambda>q. q\<lparr>isActive := False\<rparr>) d"
  let ?snap = "active_players (gameId p) ?d1"
  have ids: "map player_id (players ?d1) = map player_id (players d)"
    by (simp add: patch_player_def o_def cong: map_cong)
  have d1: "distinct (map player_id (players ?d1))"
    using assms(1) ids by simp
  have sub: "set ?snap \<subseteq> set (players ?d1)"
    by (auto simp add: active_players_def by_game_def)
  have ds: "distinct (map player_id ?snap)"
    using d1 by (simp add: active_players_def by_game_def distinct_map_filter)
  have rows: "players (update_indices ?snap 0 ?d1) = map (patched ?snap 0) (players ?d1)"
    using sub d1 ds by (rule update_indices_rows)
  have act: "active_players (gameId p) (update_indices ?snap 0 ?d1) = map (patched ?snap 0) ?snap"
    using rows by (rule active_players_patched)
  have "map index (map (patched ?snap 0) ?snap) = map int [0..<length ?snap]"
    using patched_nth [OF ds, of _ 0] by (intro nth_equalityI) simp_all
  then show ?thesis
    using assms(2) by (simp add: roster_indices_def getPlayers_def removePlayer_def Let_def act)
qed

lemma addPlayer_index:
  "roster_indices gid (snd (addPlayer new_id gid nm col d)) =
     roster_indices gid d @ [int (length (by_game gid d))]"
  by (simp add: roster_indices_def getPlayers_def active_players_def by_game_def addPlayer_def
        Let_def)

lemma players_two_added:
  "players db_two_added =
     [\<lparr>player_id = ''p0'', gameId = ''g1'', name = ''Ann'', color = ''red'', index = 0,
       isActive = True\<rparr>,
      \<lparr>player_id = ''p1'', gameId = ''g1'', name = ''Bo'', color = ''blue'', index = 1,
       isActive = True\<rparr>]"
  by (simp add: db_two_added_def addPlayer_def by_game_def empty_db_def Let_def)

lemma players_one_removed:
  "players db_one_removed =
     [\<lparr>player_id = ''p0'', gameId = ''g1'', name = ''Ann'', color = ''red'', index = 0,
       isActive = False\<rparr>,
      \<lparr>player_id = ''p1'', gameId = ''g1'', name = ''Bo'', color = ''blue'', index = 0,
       isActive = True\<rparr>]"
  by (simp add: db_one_removed_def removePlayer_def get_player_def players_two_added
        patch_player_def active_players_def by_game_def Let_def)

lemma players_third_added:
  "players db_third_added =
     [\<lparr>player_id = ''p0'', gameId = ''g1'', name = ''Ann'', color = ''red'', index = 0,
       isActive = False\<rparr>,
      \<lparr>player_id = ''p1'', gameId = ''g1'', name = ''Bo'', color = ''blue'', index = 0,
       isActive = True\<rparr>,
      \<lparr>player_id = ''p2'', gameId = ''g1'', name = ''Cy'', color = ''green'', index = 2,
       isActive = True\<rparr>]"
  by (simp add: db_third_added_def addPlayer_def by_game_def players_one_removed Let_def)

text \<open>
  C1. Roster contiguity, at the sequence add, add, remove the first, add: after the two
  additions the active indices are 0 and 1, after the removal the remaining player has
  index 0, and the next addition gets index 2, the number of rows of the game with the
  inactive one counted, so that the active indices are 0 and 2.
\<close>

theorem add_after_remove_leaves_gap:
  "roster_indices ''g1'' db_two_added = [0, 1] \<and>
   roster_indices ''g1'' db_one_removed = [0] \<and>
   roster_indices ''g1'' db_third_added = [0, 2]"
  by (simp add: roster_indices_def getPlayers_def active_players_def by_game_def
        players_two_added players_one_removed players_third_added)

section \<open>Starting a game\<close>

lemma startGame_too_few:
  "games d gid = Some g \<Longrightarrow> length (active_players gid d) < 3 \<Longrightarrow>
   startGame rnd now gid d = Some (Inl NeedThreePlayers, d)"
  by (simp add: startGame_def)

text \<open>
  C7, as stated, fails: with two active players, no selected category and so no word,
  all three conditions are violated and the error names the first only.
\<close>

theorem startGame_names_first_only_counterexample:
  "games unready_db ''g1'' = Some unready_game \<and>
   length (active_players ''g1'' unready_db) = 2 \<and>
   selectedCategories unready_game = [] \<and>
   all_words unready_game unready_db = [] \<and>
   startGame (sconst 0) 7 ''g1'' unready_db = Some (Inl NeedThreePlayers, unready_db)"
  using startGame_too_few [OF games_unready_db, of "sconst 0" 7]
  by (simp add: active_unready_db games_unready_db all_words_def unready_game_def)

text \<open>
  C7, amended. When fewer than three players are active, or no category is selected, or
  the selected categories hold no word, \<open>startGame\<close> fails with the error of the first of
  these conditions that is violated, in this order; and whenever \<open>startGame\<close> fails, with
  any error, the database is unchanged.
\<close>

theorem startGame_first_violation:
  assumes "games d gid = Some g"
  shows "(length (active_players gid d) < 3 \<or> selectedCategories g = [] \<or> all_words g d = [] \<longrightarrow>
            startGame rnd now gid d =
              Some (Inl (if length (active_players gid d) < 3 then NeedThreePlayers
                         else if selectedCategories g = [] then NoCategorySelected
                         else NoWordsFound), d)) \<and>
         (\<forall>e d'. startGame rnd now gid d = Some (Inl e, d') \<longrightarrow> d' = d)"
  using assms
  by (auto simp add: startGame_def Let_def patch_game_def split: option.splits if_splits)

theorem startGame_first_violation_witness:
  "games unready_db ''g1'' = Some unready_game \<and>
   (length (active_players ''g1'' unready_db) < 3 \<or> selectedCategories unready_game = [] \<or>
      all_words unready_game unready_db = []) \<and>
   startGame (sconst 0) 7 ''g1'' unready_db = Some (Inl NeedThreePlayers, unready_db)"
proof -
  have h: "games unready_db ''g1'' = Some unready_game" by (simp add: unready_db_def)
  show ?thesis
    using startGame_first_violation [OF h, of "sconst 0" 7] h
    by (simp add: active_unready_db)
qed

subsection \<open>The imposter loop\<close>

lemma random_index_range:
  assumes "0 \<le> u" and "u < 1" and "0 < n"
  shows "0 \<le> random_index u n \<and> random_index u n < int n"
proof -
  have "0 \<le> u * real n" using assms by simp
  moreover have "u * real n < real n" using assms by simp
  ultimately show ?thesis
    by (simp add: random_index_def floor_less_iff)
qed

lemma assign_imposters_result:
  assumes "assign_imposters rnd n k acc = Some y"
  shows "distinct acc \<longrightarrow> int (length acc) \<le> k \<longrightarrow>
           distinct (fst y) \<and> int (length (fst y)) = k \<and>
           set (fst y) \<subseteq> set acc \<union> (\<lambda>u. random_index u n) ` sset rnd"
  using assms
proof (induct rule: assign_imposters.raw_induct [rotated, consumes 1, case_names step])
  case (step loop rnd n k acc y)
  show ?case
  proof (cases "int (length acc) < k")
    case False
    with step(2) show ?thesis by auto
  next
    case True
    let ?r = "random_index (shd rnd) n"
    have hd_in: "shd rnd \<in> sset rnd" by (simp add: shd_sset)
    have "sset (stl rnd) \<subseteq> sset rnd" by (auto simp add: stl_sset)
    then have tl_sub: "(\<lambda>u. random_index u n) ` sset (stl rnd) \<subseteq> (\<lambda>u. random_index u n) ` sset rnd"
      by (rule image_mono)
    have hd_img: "?r \<in> (\<lambda>u. random_index u n) ` sset rnd"
      using hd_in by (rule imageI)
    show ?thesis
    proof (cases "?r \<in> set acc")
      case True
      with \<open>int (length acc) < k\<close> step(2) have "loop (stl rnd) n k acc = Some y"
        by (simp add: Let_def)
      from step(1) [OF this] tl_sub show ?thesis by blast
    next
      case False
      with \<open>int (length acc) < k\<close> step(2) have "loop (stl rnd) n k (acc @ [?r]) = Some y"
        by (simp add: Let_def)
      then have "distinct (acc @ [?r]) \<longrightarrow> int (length (acc @ [?r])) \<le> k \<longrightarrow>
           distinct (fst y) \<and> int (length (fst y)) = k \<and>
           set (fst y) \<subseteq> set (acc @ [?r]) \<union> (\<lambda>u. random_index u n) ` sset (stl rnd)"
        by (rule step(1))
      moreover have "distinct acc \<Longrightarrow> distinct (acc @ [?r])" using False by simp
      moreover have "int (length (acc @ [?r])) \<le> k" using \<open>int (length acc) < k\<close> by simp
      moreover have "set (acc @ [?r]) \<subseteq> set acc \<union> (\<lambda>u. random_index u n) ` sset rnd"
        using hd_img by auto
      ultimately show ?thesis using tl_sub by blast
    qed
  qed
qed

lemma startGame_success:
  assumes "startGame rnd now gid d = Some (Inr (), d')" and "games d gid = Some g"
  shows "\<exists>imps rnd' w h.
           assign_imposters (stl rnd) (length (active_players gid d))
             (min (numberOfImposters (settings g)) (int (length (active_players gid d)) - 1)) [] =
             Some (imps, rnd') \<and>
           d' = d\<lparr>games := (games d)(gid \<mapsto>
                  g\<lparr>status := Playing, currentPlayerIndex := 0, currentWord := Some w,
                    hintWord := Some h, imposters := imps,
                    timerStartTime := (if timerEnabled (settings g) then Some now else None)\<rparr>)\<rparr>"
  using assms
  by (auto simp add: startGame_def Let_def patch_game_def split: if_splits option.splits)

text \<open>
  C3. When a game with at least three active players and a configured number of
  imposters of at least one is started with success, with every \<open>Math.random()\<close> draw in
  [0, 1), the stored imposter list has exactly
  min(numberOfImposters, activeCount - 1) elements, they are distinct (so the set has
  that size), and each lies in [0, activeCount).
\<close>

theorem imposter_count_invariant:
  assumes "games d gid = Some g"
    and "3 \<le> length (active_players gid d)"
    and "1 \<le> numberOfImposters (settings g)"
    and "\<forall>u\<in>sset rnd. 0 \<le> u \<and> u < 1"
    and "startGame rnd now gid d = Some (Inr (), d')"
  shows "\<exists>g'. games d' gid = Some g' \<and> status g' = Playing \<and>
           int (length (imposters g')) =
             min (numberOfImposters (settings g)) (int (length (active_players gid d)) - 1) \<and>
           int (card (set (imposters g'))) =
             min (numberOfImposters (settings g)) (int (length (active_players gid d)) - 1) \<and>
           distinct (imposters g') \<and>
           (\<forall>i\<in>set (imposters g'). 0 \<le> i \<and> i < int (length (active_players gid d)))"
proof -
  let ?n = "length (active_players gid d)"
  let ?k = "min (numberOfImposters (settings g)) (int ?n - 1)"
  from startGame_success [OF assms(5,1)] obtain imps rnd' w h where
    loop: "assign_imposters (stl rnd) ?n ?k [] = Some (imps, rnd')" and
    d': "d' = d\<lparr>games := (games d)(gid \<mapsto>
                  g\<lparr>status := Playing, currentPlayerIndex := 0, currentWord := Some w,
                    hintWord := Some h, imposters := imps,
                    timerStartTime := (if timerEnabled (settings g) then Some now else None)\<rparr>)\<rparr>"
    by blast
  have k0: "int (length ([] :: int list)) \<le> ?k"
    using assms(2,3) by auto
  from assign_imposters_result [OF loop] k0 have
    res: "distinct imps" "int (length imps) = ?k"
         "set imps \<subseteq> (\<lambda>u. random_index u ?n) ` sset (stl rnd)"
    by simp_all
  have range: "0 \<le> i \<and> i < int ?n" if "i \<in> set imps" for i
  proof -
    from that res(3) obtain u where u: "u \<in> sset (stl rnd)" "i = random_index u ?n" by blast
    then have "u \<in> sset rnd" by (auto simp add: stl_sset)
    with assms(4) have "0 \<le> u" "u < 1" by simp_all
    moreover have "0 < ?n" using assms(2) by linarith
    ultimately show ?thesis using u(2) random_index_range by simp
  qed
  show ?thesis
    using res(1,2) range by (simp add: d' distinct_card)
qed

lemma assign_imposters_example:
  "assign_imposters (0 ## 0 ## (1/2) ## sconst 0) 3 2 [] = Some ([0, 1], sconst 0)"
  by (simp add: assign_imposters.simps random_index_def Let_def)

lemma startGame_example:
  "startGame example_draws 7 ''g1'' lobby_db =
     Some (Inr (), lobby_db\<lparr>games := (games lobby_db)(''g1'' \<mapsto>
        lobby_game\<lparr>status := Playing, currentPlayerIndex := 0, currentWord := Some ''cow'',
          hintWord := Some ''farm'', imposters := [0, 1], timerStartTime := Some 7\<rparr>)\<rparr>)"
proof -
  have s: "numberOfImposters (settings lobby_game) = 2" "timerEnabled (settings lobby_game)"
    "selectedCategories lobby_game = [''animals'']"
    by (simp_all add: lobby_game_def example_game_def example_settings_def)
  show ?thesis
    by (simp add: startGame_def games_lobby_db active_lobby_db length_players_example
          all_words_lobby s example_draws_def random_index_def assign_imposters_example
          patch_game_def Let_def)
qed

theorem imposter_count_invariant_witness:
  "games lobby_db ''g1'' = Some lobby_game \<and> 3 \<le> length (active_players ''g1'' lobby_db) \<and>
   1 \<le> numberOfImposters (settings lobby_game) \<and>
   sset example_draws \<subseteq> {u. 0 \<le> u \<and> u < 1} \<and>
   (\<exists>d' g'. startGame example_draws 7 ''g1'' lobby_db = Some (Inr (), d') \<and>
       games d' ''g1'' = Some g' \<and> status g' = Playing \<and> int (length (imposters g')) = 2 \<and>
       distinct (imposters g') \<and> set (imposters g') \<subseteq> {0..<3})"
proof -
  have h2: "3 \<le> length (active_players ''g1'' lobby_db)"
    by (simp add: active_lobby_db length_players_example)
  have h3: "1 \<le> numberOfImposters (settings lobby_game)"
    by (simp add: lobby_game_def example_game_def example_settings_def)
  have n: "numberOfImposters (settings lobby_game) = 2"
    by (simp add: lobby_game_def example_game_def example_settings_def)
  have u: "sset example_draws \<subseteq> {u. 0 \<le> u \<and> u < 1}"
    using example_draws_unit by blast
  from imposter_count_invariant [OF games_lobby_db h2 h3 example_draws_unit startGame_example]
  obtain g' where "games
        (lobby_db\<lparr>games := (games lobby_db)(''g1'' \<mapsto>
           lobby_game\<lparr>status := Playing, currentPlayerIndex := 0, currentWord := Some ''cow'',
             hintWord := Some ''farm'', imposters := [0, 1], timerStartTime := Some 7\<rparr>)\<rparr>)
        ''g1'' = Some g'"
      "status g' = Playing" "int (length (imposters g')) = 2" "distinct (imposters g')"
      "\<forall>i\<in>set (imposters g'). 0 \<le> i \<and> i < 3"
    by (auto simp add: active_lobby_db length_players_example n)
  moreover from this(5) have "set (imposters g') \<subseteq> {0..<3}"
    by auto
  ultimately show ?thesis
    using games_lobby_db h2 h3 u startGame_example by blast
qed

subsection \<open>Termination of the imposter loop\<close>



lemma assign_imposters_terminates:
  assumes "k \<le> int (card (set acc \<union> (\<lambda>u. random_index u n) ` set (stake m rnd)))"
  shows "\<exists>y. assign_imposters rnd n k acc = Some y"
  using assms
proof (induction m arbitrary: rnd acc)
  case 0
  have "card (set acc) \<le> length acc" by (rule card_length)
  with 0 have "\<not> int (length acc) < k" by simp
  then show ?case
    by (subst assign_imposters.simps) simp
next
  case (Suc m)
  show ?case
  proof (cases "int (length acc) < k")
    case False
    then show ?thesis by (subst assign_imposters.simps) simp
  next
    case True
    let ?r = "random_index (shd rnd) n"
    have s: "set acc \<union> (\<lambda>u. random_index u n) ` set (stake (Suc m) rnd) =
          set (acc @ [?r]) \<union> (\<lambda>u. random_index u n) ` set (stake m (stl rnd))"
      by auto
    show ?thesis
    proof (cases "?r \<in> set acc")
      case True
      then have "set (acc @ [?r]) = set acc" by auto
      with Suc.prems have "k \<le> int (card (set acc \<union> (\<lambda>u. random_index u n) ` set (stake m (stl rnd))))"
        unfolding s by (simp only:)
      from Suc.IH [OF this] obtain y where "assign_imposters (stl rnd) n k acc = Some y" ..
      with True \<open>int (length acc) < k\<close> show ?thesis
        by (subst assign_imposters.simps) (simp add: Let_def)
    next
      case False
      from Suc.prems have "k \<le> int (card (set (acc @ [?r]) \<union> (\<lambda>u. random_index u n) ` set (stake m (stl rnd))))"
        unfolding s .
      from Suc.IH [OF this] obtain y where "assign_imposters (stl rnd) n k (acc @ [?r]) = Some y" ..
      with False \<open>int (length acc) < k\<close> show ?thesis
        by (subst assign_imposters.simps) (simp add: Let_def)
    qed
  qed
qed


text \<open>
  A target of at most \<open>n\<close> can be reached: some draws in [0, 1) end the loop.
\<close>

lemma spread_draws_unit:
  assumes "0 < n"
  shows "\<forall>u\<in>sset (spread_draws n). 0 \<le> u \<and> u < 1"
  using assms by (auto simp add: spread_draws_def stream.set_map)

lemma spread_draws_indices:
  assumes "m \<le> n"
  shows "(\<lambda>u. random_index u n) ` set (stake m (spread_draws n)) = int ` {0..<m}"
proof -
  have "random_index (real (i mod n) / real n) n = int i" if "i < m" for i
  proof -
    have "i < n" "0 < n" using that assms by simp_all
    then show ?thesis by (simp add: random_index_def)
  qed
  then show ?thesis
    by (auto simp add: spread_draws_def image_iff intro!: bexI)
qed

lemma imposter_loop_can_terminate:
  assumes "0 < n" and "k \<le> int n"
  shows "\<exists>rnd. (\<forall>u\<in>sset rnd. 0 \<le> u \<and> u < 1) \<and> (\<exists>y. assign_imposters rnd n k [] = Some y)"
proof -
  let ?m = "nat k"
  have m: "?m \<le> n" using assms(2) by simp
  have "card ((\<lambda>u. random_index u n) ` set (stake ?m (spread_draws n))) = ?m"
    by (simp add: spread_draws_indices [OF m] card_image)
  then have "k \<le> int (card (set [] \<union> (\<lambda>u. random_index u n) ` set (stake ?m (spread_draws n))))"
    by simp
  then have "\<exists>y. assign_imposters (spread_draws n) n k [] = Some y"
    by (rule assign_imposters_terminates)
  with spread_draws_unit [OF assms(1)] show ?thesis by blast
qed




section \<open>Advancing the turn\<close>

lemma active_players_set_game [simp]: "active_players gid (set_game gid' g d) = active_players gid d"
  by (simp add: active_players_def by_game_def set_game_def)

lemma games_set_game [simp]: "games (set_game gid g d) gid = Some g"
  by (simp add: set_game_def)

lemma set_game_set_game [simp]: "set_game gid g' (set_game gid g d) = set_game gid g' d"
  by (simp add: set_game_def)

lemma nextPlayer_step:
  "games d gid = Some g \<Longrightarrow>
   nextPlayer now gid d =
     (Inr (), set_game gid
        (if currentPlayerIndex g + 1 < int (length (active_players gid d))
         then g\<lparr>currentPlayerIndex := currentPlayerIndex g + 1\<rparr>
         else g\<lparr>status := Discussion,
                timerStartTime := (if timerEnabled (settings g) then Some now else None)\<rparr>) d)"
  by (simp add: nextPlayer_def patch_game_def Let_def set_game_def)

lemma nextPlayer_calls_snoc:
  "nextPlayer_calls (nows @ [now]) gid d = snd (nextPlayer now gid (nextPlayer_calls nows gid d))"
  by (simp add: nextPlayer_calls_def)

lemma nextPlayer_calls_prefix:
  assumes "games d gid = Some g" and "currentPlayerIndex g = 0"
    and "k < length (active_players gid d)" and "k \<le> length nows"
  shows "nextPlayer_calls (take k nows) gid d = set_game gid (g\<lparr>currentPlayerIndex := int k\<rparr>) d"
  using assms(3,4)
proof (induction k)
  case 0
  have "g\<lparr>currentPlayerIndex := 0\<rparr> = g"
    using assms(2) by simp
  moreover have "set_game gid g d = d"
    using assms(1) by (simp add: set_game_def fun_upd_idem)
  ultimately show ?case by (simp add: nextPlayer_calls_def)
next
  case (Suc k)
  then have k: "k < length (active_players gid d)" "k < length nows" by simp_all
  have t: "take (Suc k) nows = take k nows @ [nows ! k]"
    using k(2) by (simp add: take_Suc_conv_app_nth)
  have ih: "nextPlayer_calls (take k nows) gid d = set_game gid (g\<lparr>currentPlayerIndex := int k\<rparr>) d"
    using Suc.IH k by simp
  have "int k + 1 < int (length (active_players gid d))"
    using Suc.prems(1) by simp
  then show ?case
    by (simp add: t nextPlayer_calls_snoc ih nextPlayer_step add.commute)
qed

text \<open>
  C4. For a game in Playing at currentPlayerIndex 0 with \<open>N\<close> active players (\<open>N\<close> at
  least 1), \<open>N\<close> successive \<open>nextPlayer\<close> calls all succeed; before the call number
  \<open>k + 1\<close> (\<open>k\<close> from 0 to \<open>N - 1\<close>) the status is Playing and currentPlayerIndex is \<open>k\<close>,
  and after the last call the status is Discussion, with timerStartTime set to the clock
  of that call when timerEnabled holds and removed otherwise.
\<close>

theorem turn_monotonicity:
  assumes "games d gid = Some g" and "status g = Playing" and "currentPlayerIndex g = 0"
    and "length (active_players gid d) = N" and "0 < N" and "length nows = N"
  shows "(\<forall>k<N. \<exists>gk. games (nextPlayer_calls (take k nows) gid d) gid = Some gk \<and>
              status gk = Playing \<and> currentPlayerIndex gk = int k \<and>
              fst (nextPlayer (nows ! k) gid (nextPlayer_calls (take k nows) gid d)) = Inr ()) \<and>
         (\<exists>g'. games (nextPlayer_calls nows gid d) gid = Some g' \<and>
              status g' = Discussion \<and> currentPlayerIndex g' = int N - 1 \<and>
              timerStartTime g' = (if timerEnabled (settings g) then Some (last nows) else None))"
proof (intro conjI allI impI)
  fix k assume "k < N"
  then have "nextPlayer_calls (take k nows) gid d =
           set_game gid (g\<lparr>currentPlayerIndex := int k\<rparr>) d"
    using assms by (intro nextPlayer_calls_prefix) simp_all
  then show "\<exists>gk. games (nextPlayer_calls (take k nows) gid d) gid = Some gk \<and>
              status gk = Playing \<and> currentPlayerIndex gk = int k \<and>
              fst (nextPlayer (nows ! k) gid (nextPlayer_calls (take k nows) gid d)) = Inr ()"
    using assms(2) by (simp add: nextPlayer_step)
next
  obtain M where M: "N = Suc M"
    using assms(5) by (cases N) simp_all
  have ne: "nows \<noteq> []" using assms(6) M by auto
  have split: "nows = take M nows @ [last nows]"
    using ne assms(6) M by (metis append_butlast_last_id butlast_conv_take diff_Suc_1)
  have pre: "nextPlayer_calls (take M nows) gid d =
           set_game gid (g\<lparr>currentPlayerIndex := int M\<rparr>) d"
    using assms M by (intro nextPlayer_calls_prefix) simp_all
  have "nextPlayer_calls nows gid d =
          snd (nextPlayer (last nows) gid (nextPlayer_calls (take M nows) gid d))"
    using nextPlayer_calls_snoc [of "take M nows" "last nows" gid d] split by simp
  then show "\<exists>g'. games (nextPlayer_calls nows gid d) gid = Some g' \<and>
              status g' = Discussion \<and> currentPlayerIndex g' = int N - 1 \<and>
              timerStartTime g' = (if timerEnabled (settings g) then Some (last nows) else None)"
    using assms(4) M by (simp add: pre nextPlayer_step)
qed

theorem turn_monotonicity_witness:
  "games playing_db ''g1'' = Some playing_game \<and> status playing_game = Playing \<and>
   currentPlayerIndex playing_game = 0 \<and> length (active_players ''g1'' playing_db) = 3 \<and>
   (\<exists>g0 g1 g2 g3.
      games (nextPlayer_calls [] ''g1'' playing_db) ''g1'' = Some g0 \<and>
      games (nextPlayer_calls [10] ''g1'' playing_db) ''g1'' = Some g1 \<and>
      games (nextPlayer_calls [10, 20] ''g1'' playing_db) ''g1'' = Some g2 \<and>
      games (nextPlayer_calls [10, 20, 30] ''g1'' playing_db) ''g1'' = Some g3 \<and>
      status g0 = Playing \<and> currentPlayerIndex g0 = 0 \<and>
      status g1 = Playing \<and> currentPlayerIndex g1 = 1 \<and>
      status g2 = Playing \<and> currentPlayerIndex g2 = 2 \<and>
      status g3 = Discussion \<and> currentPlayerIndex g3 = 2 \<and> timerStartTime g3 = Some 30)"
proof -
  have h1: "games playing_db ''g1'' = Some playing_game" by (simp add: playing_db_def)
  have h2: "status playing_game = Playing" by (simp add: playing_game_def)
  have h3: "currentPlayerIndex playing_game = 0" by (simp add: playing_game_def)
  have h4: "length (active_players ''g1'' playing_db) = 3"
    by (simp add: active_playing_db length_players_example)
  have h5: "(0::nat) < 3" by simp
  have h6: "length [10, 20, 30 :: int] = 3" by simp
  have t: "timerEnabled (settings playing_game)"
    by (simp add: playing_game_def example_game_def example_settings_def)
  note m = turn_monotonicity [OF h1 h2 h3 h4 h5 h6]
  from m have pre: "\<And>k. k < 3 \<Longrightarrow>
      \<exists>gk. games (nextPlayer_calls (take k [10, 20, 30]) ''g1'' playing_db) ''g1'' = Some gk \<and>
           status gk = Playing \<and> currentPlayerIndex gk = int k"
    by blast
  from pre [of 0] obtain g0 where g0:
    "games (nextPlayer_calls [] ''g1'' playing_db) ''g1'' = Some g0"
    "status g0 = Playing" "currentPlayerIndex g0 = 0"
    by auto
  from pre [of 1] obtain g1 where g1:
    "games (nextPlayer_calls [10] ''g1'' playing_db) ''g1'' = Some g1"
    "status g1 = Playing" "currentPlayerIndex g1 = 1"
    by auto
  from pre [of 2] obtain g2 where g2:
    "games (nextPlayer_calls [10, 20] ''g1'' playing_db) ''g1'' = Some g2"
    "status g2 = Playing" "currentPlayerIndex g2 = 2"
    by (auto simp add: numeral_2_eq_2)
  from m t obtain g3 where g3:
    "games (nextPlayer_calls [10, 20, 30] ''g1'' playing_db) ''g1'' = Some g3"
    "status g3 = Discussion" "currentPlayerIndex g3 = 2" "timerStartTime g3 = Some 30"
    by auto
  show ?thesis
    using h1 h2 h3 h4 g0 g1 g2 g3 by blast
qed

text \<open>
  C8, as stated, fails: on a game in Lobby \<open>nextPlayer\<close> succeeds and moves
  currentPlayerIndex from 0 to 1.
\<close>

theorem nextPlayer_unguarded_counterexample:
  "games lobby_db ''g1'' = Some lobby_game \<and> status lobby_game = Lobby \<and>
   currentPlayerIndex lobby_game = 0 \<and>
   nextPlayer 7 ''g1'' lobby_db =
     (Inr (), lobby_db\<lparr>games := (games lobby_db)(''g1'' \<mapsto> lobby_game\<lparr>currentPlayerIndex := 1\<rparr>)\<rparr>)"
  by (simp add: nextPlayer_def games_lobby_db active_lobby_db length_players_example patch_game_def)
     (simp add: lobby_game_def)

text \<open>
  C8, amended. \<open>nextPlayer\<close> does not look at the status: on a game whose status is not
  Playing it succeeds and does what it does in Playing (it increments currentPlayerIndex
  when currentPlayerIndex + 1 is below the number of active players, and otherwise sets
  the status to Discussion and re-anchors the timer). The status is checked by the
  caller: the client's timer callback leaves the database unchanged when its copy of the
  game is not in Playing.
\<close>

theorem nextPlayer_unguarded:
  assumes "games d gid = Some g" and "status g \<noteq> Playing"
  shows "nextPlayer now gid d =
           (Inr (), d\<lparr>games := (games d)(gid \<mapsto>
              (if currentPlayerIndex g + 1 < int (length (active_players gid d))
               then g\<lparr>currentPlayerIndex := currentPlayerIndex g + 1\<rparr>
               else g\<lparr>status := Discussion,
                      timerStartTime := (if timerEnabled (settings g) then Some now else None)\<rparr>))\<rparr>) \<and>
         snd (timer_tick g start client_now now gid d) = d"
  using assms by (simp add: nextPlayer_def patch_game_def timer_tick_def Let_def)

theorem nextPlayer_unguarded_witness:
  "games lobby_db ''g1'' = Some lobby_game \<and> status lobby_game \<noteq> Playing \<and>
   fst (nextPlayer 7 ''g1'' lobby_db) = Inr () \<and>
   games (snd (nextPlayer 7 ''g1'' lobby_db)) ''g1'' = Some (lobby_game\<lparr>currentPlayerIndex := 1\<rparr>) \<and>
   snd (timer_tick lobby_game 1000 400000 7 ''g1'' lobby_db) = lobby_db"
proof -
  have h1: "games lobby_db ''g1'' = Some lobby_game" by (simp add: lobby_db_def)
  have h2: "status lobby_game \<noteq> Playing" by (simp add: lobby_game_def)
  have c: "currentPlayerIndex lobby_game = 0" by (simp add: lobby_game_def)
  show ?thesis
    using nextPlayer_unguarded [OF h1 h2, of 7 1000 400000] h1 h2
    by (simp add: active_lobby_db length_players_example c)
qed

section \<open>Submitting votes\<close>

text \<open>
  C2, as stated, fails: in a game with the active players p0, p1 and p2, \<open>submitVotes\<close>
  with a vote of p0 alone succeeds, sets the status to Results and stores that mapping.
\<close>

theorem submitVotes_unchecked_counterexample:
  "games discussion_db ''g1'' = Some discussion_game \<and> status discussion_game = Discussion \<and>
   map player_id (active_players ''g1'' discussion_db) = [''p0'', ''p1'', ''p2''] \<and>
   submitVotes ''g1'' [(''p0'', 1)] discussion_db =
     (Inr (), discussion_db\<lparr>games := (games discussion_db)(''g1'' \<mapsto>
        discussion_game\<lparr>status := Results, votes := Some [(''p0'', 1)]\<rparr>)\<rparr>)"
  by (simp add: active_discussion_db player_ids_example submitVotes_def patch_game_def)
     (simp add: discussion_db_def discussion_game_def)

text \<open>
  C2, amended. The mutation \<open>submitVotes\<close> checks nothing: on an existing game it sets the
  status to Results and stores the mapping it is given. The check is in the client's
  \<open>handleSubmitVotes\<close>: when the selected votes lack an entry for some active player it
  does not call the mutation and the database, with the game's status and votes, is
  unchanged; otherwise the mutation runs, and the stored votes are the selected ones,
  whose keys include the id of every active player.
\<close>

theorem handleSubmitVotes_all_or_nothing:
  assumes "games d gid = Some g"
  shows "submitVotes gid vs d =
           (Inr (), d\<lparr>games := (games d)(gid \<mapsto> g\<lparr>status := Results, votes := Some vs\<rparr>)\<rparr>) \<and>
         handleSubmitVotes (Some (getPlayers gid d)) sel gid d =
           (if player_id ` set (getPlayers gid d) \<subseteq> fst ` set sel
            then (Submitted,
                  d\<lparr>games := (games d)(gid \<mapsto> g\<lparr>status := Results, votes := Some sel\<rparr>)\<rparr>)
            else (NotAllVoted, d))"
  using assms
  by (auto simp add: submitVotes_def patch_game_def handleSubmitVotes_def Let_def list_all_iff
        map_of_eq_None_iff)

theorem handleSubmitVotes_all_or_nothing_witness:
  "games discussion_db ''g1'' = Some discussion_game \<and>
   handleSubmitVotes (Some (getPlayers ''g1'' discussion_db)) [(''p0'', 1), (''p2'', 1)] ''g1''
      discussion_db = (NotAllVoted, discussion_db) \<and>
   handleSubmitVotes (Some (getPlayers ''g1'' discussion_db))
      [(''p0'', 1), (''p2'', 1), (''p1'', 2)] ''g1'' discussion_db =
     (Submitted, discussion_db\<lparr>games := (games discussion_db)(''g1'' \<mapsto>
        discussion_game\<lparr>status := Results, votes := Some [(''p0'', 1), (''p2'', 1), (''p1'', 2)]\<rparr>)\<rparr>)"
proof -
  have h: "games discussion_db ''g1'' = Some discussion_game" by (simp add: discussion_db_def)
  have ids: "player_id ` set (getPlayers ''g1'' discussion_db) = {''p0'', ''p1'', ''p2''}"
    using player_ids_example
    by (simp add: getPlayers_def active_discussion_db example_db_def example_player_def)
  show ?thesis
    using handleSubmitVotes_all_or_nothing [OF h, of "[]" "[(''p0'', 1), (''p2'', 1)]"]
          handleSubmitVotes_all_or_nothing [OF h, of "[]" "[(''p0'', 1), (''p2'', 1), (''p1'', 2)]"]
          h
    by (simp add: ids)
qed

section \<open>Reset\<close>

text \<open>
  C6. For a game in Results or Ended, \<open>resetToLobby\<close> succeeds; afterwards the game has
  status Lobby, currentPlayerIndex 0, currentRound 1, no currentWord, hintWord,
  timerStartTime or votes, and no imposters, while its gameCode, settings, totalRounds and
  selectedCategories, every other game, and the players and categories tables are as before.
\<close>

theorem reset_clears_round_state:
  assumes "games d gid = Some g" and "status g = Results \<or> status g = Ended"
  shows "\<exists>g' d'. resetToLobby gid d = (Inr (), d') \<and> games d' gid = Some g' \<and>
           status g' = Lobby \<and> currentPlayerIndex g' = 0 \<and> currentRound g' = 1 \<and>
           currentWord g' = None \<and> hintWord g' = None \<and> timerStartTime g' = None \<and>
           votes g' = None \<and> imposters g' = [] \<and>
           gameCode g' = gameCode g \<and> settings g' = settings g \<and>
           totalRounds g' = totalRounds g \<and> selectedCategories g' = selectedCategories g \<and>
           players d' = players d \<and> categories d' = categories d \<and>
           (\<forall>other. other \<noteq> gid \<longrightarrow> games d' other = games d other)"
  using assms(1) by (simp add: resetToLobby_def patch_game_def)

theorem reset_clears_round_state_witness:
  "games example_db ''g1'' = Some example_game \<and> status example_game = Results \<and>
   (\<exists>g' d'. resetToLobby ''g1'' example_db = (Inr (), d') \<and> games d' ''g1'' = Some g' \<and>
      status g' = Lobby \<and> currentPlayerIndex g' = 0 \<and> currentRound g' = 1 \<and>
      currentWord g' = None \<and> hintWord g' = None \<and> timerStartTime g' = None \<and>
      votes g' = None \<and> imposters g' = [] \<and>
      gameCode g' = ''ABCD'' \<and> settings g' = example_settings \<and>
      players d' = players example_db)"
proof -
  have h1: "games example_db ''g1'' = Some example_game"
    by (simp add: example_db_def)
  have h2: "status example_game = Results \<or> status example_game = Ended"
    by (simp add: example_game_def)
  from reset_clears_round_state [OF h1 h2] obtain g' d' where
    r: "resetToLobby ''g1'' example_db = (Inr (), d')" "games d' ''g1'' = Some g'"
       "status g' = Lobby" "currentPlayerIndex g' = 0" "currentRound g' = 1"
       "currentWord g' = None" "hintWord g' = None" "timerStartTime g' = None"
       "votes g' = None" "imposters g' = []"
       "gameCode g' = gameCode example_game" "settings g' = settings example_game"
       "players d' = players example_db"
    by blast
  have "gameCode example_game = ''ABCD''" "settings example_game = example_settings"
       "status example_game = Results"
    by (simp_all add: example_game_def)
  with h1 r show ?thesis by auto
qed

section \<open>Vote tally and outcome\<close>



lemma or_zero_None [simp]: "or_zero None = 0"
  by (simp add: or_zero_def)







lemma length_sort_by_votes [simp]: "length (sort_by_votes rs) = length rs"
  by (simp add: sort_by_votes_def)









section \<open>Countdown\<close>

text \<open>
  C9. For every anchor, duration and clock reading, the remaining time is
  max(0, timerDuration - elapsed), with the elapsed time the clock reading minus the
  anchor, in seconds (the timestamps are in milliseconds); it is never negative; with a
  duration of 300 and anchor \<open>T0\<close> it is 180 at \<open>T0\<close> + 120 s and 0 at \<open>T0\<close> + 301 s.
\<close>

theorem timer_derivation:
  "timer_remaining duration anchor now =
     max 0 (real_of_int duration - real_of_int (now - anchor) / 1000) \<and>
   timer_remaining duration anchor (anchor + 1000 * s) = max 0 (real_of_int (duration - s)) \<and>
   0 \<le> timer_remaining duration anchor now \<and>
   timer_remaining 300 T0 (T0 + 1000 * 120) = 180 \<and>
   timer_remaining 300 T0 (T0 + 1000 * 301) = 0"
  by (simp add: timer_remaining_def)

end
